theory Spec2Isabelle
  imports Main
begin

section \<open>JavaScript values\<close>

text \<open>
  The values that flow through \<^verbatim>\<open>src/script.js\<close>: \<^verbatim>\<open>undefined\<close>, \<^verbatim>\<open>null\<close>,
  booleans, numbers with an integer value, strings (as UTF-8 bytes) and plain objects.
  A plain object is the list of its own enumerable string-keyed properties, in the
  order in which the engine enumerates them.
\<close>

datatype jsval =
    JUndefined
  | JNull
  | JBool bool
  | JNum int
  | JStr string
  | JObj "(string \<times> jsval) list"

text \<open>ToBoolean, as \<^verbatim>\<open>||\<close> and \<^verbatim>\<open>if\<close> apply it.\<close>

fun truthy :: "jsval \<Rightarrow> bool" where
  "truthy JUndefined = False"
| "truthy JNull = False"
| "truthy (JBool b) = b"
| "truthy (JNum n) = (n \<noteq> 0)"
| "truthy (JStr s) = (s \<noteq> [])"
| "truthy (JObj ps) = True"

text \<open>\<^verbatim>\<open>a || b\<close>: the left operand when it is truthy, the right one otherwise.\<close>

definition js_or :: "jsval \<Rightarrow> jsval \<Rightarrow> jsval" where
  "js_or a b = (if truthy a then a else b)"

text \<open>\<^verbatim>\<open>v == null\<close>: true of \<^verbatim>\<open>null\<close> and \<^verbatim>\<open>undefined\<close> only.\<close>

fun nullish :: "jsval \<Rightarrow> bool" where
  "nullish JUndefined = True"
| "nullish JNull = True"
| "nullish (JBool b) = False"
| "nullish (JNum n) = False"
| "nullish (JStr s) = False"
| "nullish (JObj ps) = False"

text \<open>
  \<^verbatim>\<open>v.k\<close> for a value that is neither \<^verbatim>\<open>null\<close> nor \<^verbatim>\<open>undefined\<close>, for the names the
  module reads (\<^verbatim>\<open>route\<close>, \<^verbatim>\<open>data\<close>, \<^verbatim>\<open>config\<close>, \<^verbatim>\<open>message\<close>): an object answers with
  its property, a primitive has none of these names.
\<close>

fun getProp :: "jsval \<Rightarrow> string \<Rightarrow> jsval" where
  "getProp (JObj ps) k = (case map_of ps k of Some v \<Rightarrow> v | None \<Rightarrow> JUndefined)"
| "getProp v k = JUndefined"

text \<open>\<^verbatim>\<open>v?.k\<close>: \<^verbatim>\<open>undefined\<close> when \<^verbatim>\<open>v\<close> is \<^verbatim>\<open>null\<close> or \<^verbatim>\<open>undefined\<close>.\<close>

definition optChain :: "jsval \<Rightarrow> string \<Rightarrow> jsval" where
  "optChain v k = (if nullish v then JUndefined else getProp v k)"

text \<open>A destructuring default \<^verbatim>\<open>{k = d}\<close> applies when the property is \<^verbatim>\<open>undefined\<close>.\<close>

definition default_param :: "jsval \<Rightarrow> jsval \<Rightarrow> jsval" where
  "default_param v d = (if v = JUndefined then d else v)"

text \<open>\<^verbatim>\<open>Object.keys\<close>.\<close>

fun own_keys :: "jsval \<Rightarrow> string list" where
  "own_keys (JObj ps) = map fst ps"
| "own_keys v = []"

section \<open>The HTTP client\<close>

text \<open>
  axios is outside the module. A request settles with a response
  (\<^verbatim>\<open>headers\<close>, \<^verbatim>\<open>status\<close>, \<^verbatim>\<open>data\<close>) or fails with an error that has a \<^verbatim>\<open>message\<close> and,
  when the server answered, a \<^verbatim>\<open>response\<close>. The status is the integer of the HTTP
  status line.
\<close>

record response =
  headers :: jsval
  status :: int
  data :: jsval

record axios_error =
  response :: "response option"
  message :: jsval

datatype outcome = Resolved response | Failed axios_error

text \<open>
  The calls the module makes on the client: \<^verbatim>\<open>api.get(url, config)\<close>,
  \<^verbatim>\<open>api.post(url, data, config)\<close>, \<^verbatim>\<open>api.put(url, data, config)\<close>,
  \<^verbatim>\<open>api.patch(url, data, config)\<close>, \<^verbatim>\<open>api.delete(url, config)\<close>.
\<close>

datatype request =
    Get string jsval
  | Post jsval jsval jsval
  | Put jsval jsval jsval
  | Patch jsval jsval jsval
  | Delete jsval jsval

type_synonym client = "request \<Rightarrow> outcome"

section \<open>formatError\<close>

text \<open>
  \<^verbatim>\<open>err.response?.status || 0\<close>: 0 when there is no response or its status is 0.
\<close>

definition error_status :: "axios_error \<Rightarrow> int" where
  "error_status err =
     (case response err of
        None \<Rightarrow> 0
      | Some r \<Rightarrow> if status r = 0 then 0 else status r)"

text \<open>\<^verbatim>\<open>err.response?.data\<close>.\<close>

definition error_data :: "axios_error \<Rightarrow> jsval" where
  "error_data err = (case response err of None \<Rightarrow> JUndefined | Some r \<Rightarrow> data r)"

definition formatError :: "axios_error \<Rightarrow> jsval" where
  "formatError err =
     (let st = error_status err in
      if 500 \<le> st then
        JObj [(''headers'', JObj []),
              (''main'', JObj [(''status'', JNum st),
                               (''message'', JStr ''Something went wrong. Please try again later.''),
                               (''body'', JNull)])]
      else
        JObj [(''headers'', JObj []),
              (''main'', JObj [(''status'', JNum st),
                               (''message'',
                                  js_or (js_or (optChain (error_data err) ''message'') (message err))
                                        (JStr ''Unknown error'')),
                               (''body'', js_or (error_data err) (JObj []))])])"

section \<open>String conversion and query strings\<close>

text \<open>
  What the module takes from the platform without defining it: the
  application/x-www-form-urlencoded parser behind \<^verbatim>\<open>new URLSearchParams(string)\<close>, and
  the printing of numbers whose magnitude exceeds \<open>2\<^sup>5\<^sup>3 - 1\<close> (shortest round-trip
  digits, exponent notation from \<open>10\<^sup>2\<^sup>1\<close> on).
\<close>

record platform =
  parse_query :: "string \<Rightarrow> (string \<times> string) list"
  print_large :: "int \<Rightarrow> string"

text \<open>The exceptions the module can raise by itself.\<close>

datatype exception = TypeError

text \<open>
  Number to string, for a number with an integer value: up to \<open>2\<^sup>5\<^sup>3 - 1\<close> in
  magnitude it prints its decimal digits, with a minus sign when negative; beyond,
  what the platform prints.
\<close>

definition digit_char :: "nat \<Rightarrow> char" where
  "digit_char d = ''0123456789'' ! d"

function nat_digits :: "nat \<Rightarrow> string" where
  "nat_digits n =
     (if n < 10 then [digit_char n] else nat_digits (n div 10) @ [digit_char (n mod 10)])"
  by pat_completeness auto
termination
  by (relation "measure id") auto

definition Number_toString :: "platform \<Rightarrow> int \<Rightarrow> string" where
  "Number_toString pf n =
     (if 9007199254740991 < \<bar>n\<bar> then print_large pf n
      else if n < 0 then CHR ''-'' # nat_digits (nat (- n))
      else nat_digits (nat n))"

text \<open>
  ToString, as a template literal \<^verbatim>\<open>`${v}`\<close> applies it. A plain object is converted
  through its \<^verbatim>\<open>toString\<close>: the inherited one prints \<^verbatim>\<open>[object Object]\<close>; an own
  property of that name is no function here (the values hold no functions), and then
  neither it nor \<^verbatim>\<open>valueOf\<close> yields a primitive: a \<^verbatim>\<open>TypeError\<close>.
\<close>

fun ToString :: "platform \<Rightarrow> jsval \<Rightarrow> exception + string" where
  "ToString pf JUndefined = Inr ''undefined''"
| "ToString pf JNull = Inr ''null''"
| "ToString pf (JBool b) = Inr (if b then ''true'' else ''false'')"
| "ToString pf (JNum n) = Inr (Number_toString pf n)"
| "ToString pf (JStr s) = Inr s"
| "ToString pf (JObj ps) =
     (if map_of ps ''toString'' = None then Inr ''[object Object]'' else Inl TypeError)"

text \<open>
  The application/x-www-form-urlencoded serializer of \<^verbatim>\<open>URLSearchParams.toString()\<close>:
  a space becomes \<^verbatim>\<open>+\<close>; ASCII letters and digits and \<^verbatim>\<open>* - . _\<close> stay; every other
  byte is percent-encoded with upper-case hexadecimal digits; pairs are written
  \<^verbatim>\<open>name=value\<close> and joined with \<^verbatim>\<open>&\<close>.
\<close>

definition hex_char :: "nat \<Rightarrow> char" where
  "hex_char d = ''0123456789ABCDEF'' ! d"

definition urlencoded_plain :: "char \<Rightarrow> bool" where
  "urlencoded_plain c =
     (let n = (of_char c :: nat) in
      (48 \<le> n \<and> n \<le> 57) \<or> (65 \<le> n \<and> n \<le> 90) \<or> (97 \<le> n \<and> n \<le> 122) \<or>
      c \<in> set ''*-._'')"

definition urlencoded_byte :: "char \<Rightarrow> string" where
  "urlencoded_byte c =
     (if c = CHR '' '' then ''+''
      else if urlencoded_plain c then [c]
      else [CHR ''%'', hex_char ((of_char c :: nat) div 16), hex_char ((of_char c :: nat) mod 16)])"

definition urlencoded_string :: "string \<Rightarrow> string" where
  "urlencoded_string s = concat (map urlencoded_byte s)"

fun join_amp :: "string list \<Rightarrow> string" where
  "join_amp [] = []"
| "join_amp [x] = x"
| "join_amp (x # y # zs) = x @ ''&'' @ join_amp (y # zs)"

definition urlencoded_serialize :: "(string \<times> string) list \<Rightarrow> string" where
  "urlencoded_serialize ps =
     join_amp (map (\<lambda>(k, v). urlencoded_string k @ ''='' @ urlencoded_string v) ps)"

text \<open>
  \<^verbatim>\<open>new URLSearchParams(init)\<close> in Node.js. Nothing for \<^verbatim>\<open>null\<close> and \<^verbatim>\<open>undefined\<close>;
  for a plain object, one pair per property, the value converted to a string, the
  first value that cannot be converted raising its exception; any other value is
  converted to a string and, after one leading \<^verbatim>\<open>?\<close> is dropped, handed to the
  platform's parser.
\<close>

definition strip_question :: "string \<Rightarrow> string" where
  "strip_question s = (case s of [] \<Rightarrow> [] | c # cs \<Rightarrow> if c = CHR ''?'' then cs else s)"

fun record_pairs :: "platform \<Rightarrow> (string \<times> jsval) list \<Rightarrow> exception + (string \<times> string) list" where
  "record_pairs pf [] = Inr []"
| "record_pairs pf ((k, v) # ps) =
     (case ToString pf v of
        Inl e \<Rightarrow> Inl e
      | Inr sv \<Rightarrow>
          (case record_pairs pf ps of
             Inl e \<Rightarrow> Inl e
           | Inr rest \<Rightarrow> Inr ((k, sv) # rest)))"

fun URLSearchParams :: "platform \<Rightarrow> jsval \<Rightarrow> exception + (string \<times> string) list" where
  "URLSearchParams pf JUndefined = Inr []"
| "URLSearchParams pf JNull = Inr []"
| "URLSearchParams pf (JObj ps) = record_pairs pf ps"
| "URLSearchParams pf v =
     (case ToString pf v of
        Inl e \<Rightarrow> Inl e
      | Inr sv \<Rightarrow> Inr (parse_query pf (strip_question sv)))"

section \<open>The module\<close>

text \<open>
  The module's state is the variable \<^verbatim>\<open>api\<close> (\<open>None\<close> while it is \<^verbatim>\<open>undefined\<close>).
  Two effects are recorded beside it: the lines written by \<^verbatim>\<open>console.error\<close> and the
  requests handed to the client.
\<close>

record state =
  api :: "client option"
  stderr :: "string list"
  network :: "request list"

text \<open>
  An \<^verbatim>\<open>async\<close> function returns a promise, which is fulfilled with the returned value
  or rejected with the exception thrown.
\<close>

datatype settled = Fulfilled jsval | Rejected exception

text \<open>
  \<^verbatim>\<open>createApiApp(baseURL, config = {})\<close>. The parameter \<open>axios_create\<close> stands for
  \<^verbatim>\<open>(baseURL, config) => axios.create({ baseURL: baseURL, ...config })\<close>.
\<close>

definition createApiApp :: "(jsval \<Rightarrow> jsval \<Rightarrow> client) \<Rightarrow> state \<Rightarrow> jsval \<Rightarrow> jsval \<Rightarrow> state" where
  "createApiApp axios_create s baseURL config =
     s\<lparr>api := Some (axios_create baseURL (default_param config (JObj [])))\<rparr>"

definition no_api_message :: string where
  "no_api_message =
     ''No api app created!, try creating one using createApiApp() in the root file''"

text \<open>
  The two lines of \<^verbatim>\<open>get\<close> that stand before its \<^verbatim>\<open>try\<close>:
  \<^verbatim>\<open>data != null ? new URLSearchParams(data).toString() : ""\<close> and
  \<^verbatim>\<open>`${route}?${queryParam}`\<close>. Either can raise.
\<close>

definition queryParam :: "platform \<Rightarrow> jsval \<Rightarrow> exception + string" where
  "queryParam pf data' =
     (if \<not> nullish data' then
        (case URLSearchParams pf data' of
           Inl e \<Rightarrow> Inl e
         | Inr ps \<Rightarrow> Inr (urlencoded_serialize ps))
      else Inr [])"

definition newRoute :: "platform \<Rightarrow> jsval \<Rightarrow> jsval \<Rightarrow> exception + string" where
  "newRoute pf data' route =
     (case queryParam pf data' of
        Inl e \<Rightarrow> Inl e
      | Inr q \<Rightarrow>
          (case ToString pf route of
             Inl e \<Rightarrow> Inl e
           | Inr r \<Rightarrow> Inr (r @ ''?'' @ q)))"

text \<open>
  Each verb function destructures its argument first (a \<^verbatim>\<open>TypeError\<close> when the
  argument is \<^verbatim>\<open>undefined\<close> or \<^verbatim>\<open>null\<close>), then tests \<^verbatim>\<open>api\<close>. An exception raised
  outside the \<^verbatim>\<open>try\<close> rejects the promise; nothing has been sent then.
\<close>

definition get :: "platform \<Rightarrow> state \<Rightarrow> jsval \<Rightarrow> state \<times> settled" where
  "get pf s options =
     (if nullish options then (s, Rejected TypeError)
      else
        let data' = default_param (getProp options ''data'') JNull;
            route = getProp options ''route'';
            config = default_param (getProp options ''config'') (JObj [])
        in case api s of
             Some client \<Rightarrow>
               (case newRoute pf data' route of
                  Inl e \<Rightarrow> (s, Rejected e)
                | Inr url \<Rightarrow>
                    let req = Get url config
                    in (case client req of
                          Resolved r \<Rightarrow>
                            (s\<lparr>network := network s @ [req]\<rparr>,
                             Fulfilled (JObj [(''headers'', headers r),
                                              (''main'', JObj [(''status'', JNum (status r)),
                                                               (''message'', JStr ''Success''),
                                                               (''body'', data r)])]))
                        | Failed err \<Rightarrow>
                            (s\<lparr>network := network s @ [req]\<rparr>, Fulfilled (formatError err))))
           | None \<Rightarrow> (s\<lparr>stderr := stderr s @ [no_api_message]\<rparr>, Fulfilled JUndefined))"

definition post :: "state \<Rightarrow> jsval \<Rightarrow> state \<times> settled" where
  "post s options =
     (if nullish options then (s, Rejected TypeError)
      else
        let route = getProp options ''route'';
            data' = getProp options ''data'';
            config = default_param (getProp options ''config'') (JObj [(''withCredentials'', JBool True)])
        in case api s of
             Some client \<Rightarrow>
               let req = Post route data' config
               in (case client req of
                     Resolved r \<Rightarrow>
                       (s\<lparr>network := network s @ [req]\<rparr>,
                        Fulfilled (JObj [(''headers'', headers r),
                                         (''main'', JObj [(''status'', JNum (status r)),
                                                          (''message'', JStr ''Success''),
                                                          (''body'', data r)])]))
                   | Failed err \<Rightarrow>
                       (s\<lparr>network := network s @ [req]\<rparr>, Fulfilled (formatError err)))
           | None \<Rightarrow> (s\<lparr>stderr := stderr s @ [no_api_message]\<rparr>, Fulfilled JUndefined))"

definition put :: "state \<Rightarrow> jsval \<Rightarrow> state \<times> settled" where
  "put s options =
     (if nullish options then (s, Rejected TypeError)
      else
        let route = getProp options ''route'';
            data' = getProp options ''data'';
            config = default_param (getProp options ''config'') (JObj [])
        in case api s of
             Some client \<Rightarrow>
               let req = Put route data' config
               in (case client req of
                     Resolved r \<Rightarrow>
                       (s\<lparr>network := network s @ [req]\<rparr>,
                        Fulfilled (JObj [(''headers'', headers r),
                                         (''main'', JObj [(''status'', JNum (status r)),
                                                          (''message'', JStr ''Success''),
                                                          (''body'', data r)])]))
                   | Failed err \<Rightarrow>
                       (s\<lparr>network := network s @ [req]\<rparr>, Fulfilled (formatError err)))
           | None \<Rightarrow> (s\<lparr>stderr := stderr s @ [no_api_message]\<rparr>, Fulfilled JUndefined))"

definition remove_request :: "state \<Rightarrow> jsval \<Rightarrow> state \<times> settled" where
  "remove_request s options =
     (if nullish options then (s, Rejected TypeError)
      else
        let route = getProp options ''route'';
            config = default_param (getProp options ''config'') (JObj [(''withCredentials'', JBool True)])
        in case api s of
             Some client \<Rightarrow>
               let req = Delete route config
               in (case client req of
                     Resolved r \<Rightarrow>
                       (s\<lparr>network := network s @ [req]\<rparr>,
                        Fulfilled (JObj [(''headers'', headers r),
                                         (''main'', JObj [(''status'', JNum (status r)),
                                                          (''message'', JStr ''Success''),
                                                          (''body'', data r)])]))
                   | Failed err \<Rightarrow>
                       (s\<lparr>network := network s @ [req]\<rparr>, Fulfilled (formatError err)))
           | None \<Rightarrow> (s\<lparr>stderr := stderr s @ [no_api_message]\<rparr>, Fulfilled JUndefined))"

definition patch :: "state \<Rightarrow> jsval \<Rightarrow> state \<times> settled" where
  "patch s options =
     (if nullish options then (s, Rejected TypeError)
      else
        let route = getProp options ''route'';
            data' = getProp options ''data'';
            config = default_param (getProp options ''config'') (JObj [(''withCredentials'', JBool True)])
        in case api s of
             Some client \<Rightarrow>
               let req = Patch route data' config
               in (case client req of
                     Resolved r \<Rightarrow>
                       (s\<lparr>network := network s @ [req]\<rparr>,
                        Fulfilled (JObj [(''headers'', headers r),
                                         (''main'', JObj [(''status'', JNum (status r)),
                                                          (''message'', JStr ''Success''),
                                                          (''body'', data r)])]))
                   | Failed err \<Rightarrow>
                       (s\<lparr>network := network s @ [req]\<rparr>, Fulfilled (formatError err)))
           | None \<Rightarrow> (s\<lparr>stderr := stderr s @ [no_api_message]\<rparr>, Fulfilled JUndefined))"

text \<open>
  \<^verbatim>\<open>module.exports\<close>: the five verb functions under their exported names
  (\<^verbatim>\<open>delete\<close> is \<^verbatim>\<open>remove\<close>).
\<close>

datatype verb = GET | POST | PUT | DELETE | PATCH

fun exports :: "platform \<Rightarrow> verb \<Rightarrow> state \<Rightarrow> jsval \<Rightarrow> state \<times> settled" where
  "exports pf GET = get pf"
| "exports pf POST = post"
| "exports pf PUT = put"
| "exports pf DELETE = remove_request"
| "exports pf PATCH = patch"

section \<open>What every verb function does\<close>

text \<open>The paths of a verb function: no options, no client, a conversion that fails, a request.\<close>

lemma verb_nullish:
  "nullish options \<Longrightarrow> exports pf v s options = (s, Rejected TypeError)"
  by (cases v) (simp_all add: get_def post_def put_def remove_request_def patch_def)

lemma verb_no_api:
  "\<not> nullish options \<Longrightarrow> api s = None \<Longrightarrow>
   exports pf v s options = (s\<lparr>stderr := stderr s @ [no_api_message]\<rparr>, Fulfilled JUndefined)"
  by (cases v) (simp_all add: get_def post_def put_def remove_request_def patch_def Let_def)

lemma get_rejects:
  "\<not> nullish options \<Longrightarrow> api s = Some client \<Longrightarrow>
   newRoute pf (default_param (getProp options ''data'') JNull) (getProp options ''route'') = Inl e \<Longrightarrow>
   get pf s options = (s, Rejected e)"
  by (simp add: get_def Let_def)

lemma get_sends:
  "\<not> nullish options \<Longrightarrow> api s = Some client \<Longrightarrow>
   newRoute pf (default_param (getProp options ''data'') JNull) (getProp options ''route'') = Inr url \<Longrightarrow>
   get pf s options =
     (s\<lparr>network := network s @ [Get url (default_param (getProp options ''config'') (JObj []))]\<rparr>,
      Fulfilled (case client (Get url (default_param (getProp options ''config'') (JObj []))) of
                   Resolved r \<Rightarrow>
                     JObj [(''headers'', headers r),
                           (''main'', JObj [(''status'', JNum (status r)),
                                            (''message'', JStr ''Success''),
                                            (''body'', data r)])]
                 | Failed err \<Rightarrow> formatError err))"
  by (simp add: get_def Let_def split: outcome.splits)

lemma verb_api:
  assumes "\<not> nullish options" and "api s = Some client"
    and "v = GET \<Longrightarrow>
           \<exists>url. newRoute pf (default_param (getProp options ''data'') JNull)
                   (getProp options ''route'') = Inr url"
  shows "\<exists>req. exports pf v s options =
     (s\<lparr>network := network s @ [req]\<rparr>,
      Fulfilled (case client req of
                   Resolved r \<Rightarrow>
                     JObj [(''headers'', headers r),
                           (''main'', JObj [(''status'', JNum (status r)),
                                            (''message'', JStr ''Success''),
                                            (''body'', data r)])]
                 | Failed err \<Rightarrow> formatError err))"
proof (cases v)
  case GET
  with assms(3) obtain url where
    "newRoute pf (default_param (getProp options ''data'') JNull) (getProp options ''route'') = Inr url"
    by blast
  from get_sends [OF assms(1,2) this] GET show ?thesis by auto
next
  case POST
  with assms(1,2) show ?thesis
    by (auto simp add: post_def Let_def split: outcome.splits)
next
  case PUT
  with assms(1,2) show ?thesis
    by (auto simp add: put_def Let_def split: outcome.splits)
next
  case DELETE
  with assms(1,2) show ?thesis
    by (auto simp add: remove_request_def Let_def split: outcome.splits)
next
  case PATCH
  with assms(1,2) show ?thesis
    by (auto simp add: patch_def Let_def split: outcome.splits)
qed

lemma verb_sends:
  assumes "api s = Some client" and "\<not> nullish options"
    and "v = GET \<Longrightarrow>
           \<exists>url. newRoute pf (default_param (getProp options ''data'') JNull)
                   (getProp options ''route'') = Inr url"
  shows "\<exists>req. fst (exports pf v s options) = s\<lparr>network := network s @ [req]\<rparr> \<and>
           snd (exports pf v s options) =
             Fulfilled (case client req of
                   Resolved r \<Rightarrow>
                     JObj [(''headers'', headers r),
                           (''main'', JObj [(''status'', JNum (status r)),
                                            (''message'', JStr ''Success''),
                                            (''body'', data r)])]
                 | Failed err \<Rightarrow> formatError err)"
proof -
  have "\<exists>req. exports pf v s options =
     (s\<lparr>network := network s @ [req]\<rparr>,
      Fulfilled (case client req of
                   Resolved r \<Rightarrow>
                     JObj [(''headers'', headers r),
                           (''main'', JObj [(''status'', JNum (status r)),
                                            (''message'', JStr ''Success''),
                                            (''body'', data r)])]
                 | Failed err \<Rightarrow> formatError err))"
    by (rule verb_api [OF assms(2,1)]) (use assms(3) in blast)
  then show ?thesis by auto
qed

section \<open>The route that get requests\<close>


lemma newRoute_null:
  "newRoute pf JNull (JStr r) = Inr (r @ ''?'')"
  by (simp add: newRoute_def queryParam_def)

lemma newRoute_unconvertible_route:
  "newRoute pf JNull (JObj [(''toString'', JNull)]) = Inl TypeError"
  by (simp add: newRoute_def queryParam_def)

lemma newRoute_unconvertible_data:
  "newRoute pf (JObj [(''a'', JObj [(''toString'', JNull)])]) (JStr ''/items'') = Inl TypeError"
  by (simp add: newRoute_def queryParam_def)

section \<open>The error mapping\<close>

lemma formatError_5xx:
  "response err = Some r \<Longrightarrow> 500 \<le> status r \<Longrightarrow>
   formatError err =
     JObj [(''headers'', JObj []),
           (''main'', JObj [(''status'', JNum (status r)),
                            (''message'', JStr ''Something went wrong. Please try again later.''),
                            (''body'', JNull)])]"
  by (simp add: formatError_def error_status_def)

lemma formatError_below_500:
  "response err = Some r \<Longrightarrow> status r < 500 \<Longrightarrow>
   formatError err =
     JObj [(''headers'', JObj []),
           (''main'', JObj [(''status'', JNum (status r)),
                            (''message'',
                               if truthy (optChain (data r) ''message'') then optChain (data r) ''message''
                               else if truthy (message err) then message err
                               else JStr ''Unknown error''),
                            (''body'', if truthy (data r) then data r else JObj [])])]"
  by (simp add: formatError_def error_status_def error_data_def js_or_def)

lemma formatError_no_response:
  "response err = None \<Longrightarrow>
   formatError err =
     JObj [(''headers'', JObj []),
           (''main'', JObj [(''status'', JNum 0),
                            (''message'',
                               if truthy (message err) then message err else JStr ''Unknown error''),
                            (''body'', JObj [])])]"
  by (simp add: formatError_def error_status_def error_data_def js_or_def optChain_def)

lemma formatError_shape:
  "\<exists>st m b. formatError err =
     JObj [(''headers'', JObj []),
           (''main'', JObj [(''status'', JNum st), (''message'', m), (''body'', b)])]"
  by (simp add: formatError_def Let_def)

section \<open>Initialisation and the requests issued\<close>

lemma createApiApp_api:
  "api (createApiApp axios_create s baseURL config) =
     Some (axios_create baseURL (default_param config (JObj [])))"
  by (simp add: createApiApp_def)

lemma post_request:
  "\<not> nullish options \<Longrightarrow> api s = Some client \<Longrightarrow>
   network (fst (post s options)) =
     network s @
     [Post (getProp options ''route'') (getProp options ''data'')
           (default_param (getProp options ''config'') (JObj [(''withCredentials'', JBool True)]))]"
  by (simp add: post_def Let_def split: outcome.splits)

lemma put_request:
  "\<not> nullish options \<Longrightarrow> api s = Some client \<Longrightarrow>
   network (fst (put s options)) =
     network s @
     [Put (getProp options ''route'') (getProp options ''data'')
          (default_param (getProp options ''config'') (JObj []))]"
  by (simp add: put_def Let_def split: outcome.splits)

lemma patch_request:
  "\<not> nullish options \<Longrightarrow> api s = Some client \<Longrightarrow>
   network (fst (patch s options)) =
     network s @
     [Patch (getProp options ''route'') (getProp options ''data'')
            (default_param (getProp options ''config'') (JObj [(''withCredentials'', JBool True)]))]"
  by (simp add: patch_def Let_def split: outcome.splits)

lemma remove_request_request:
  "\<not> nullish options \<Longrightarrow> api s = Some client \<Longrightarrow>
   network (fst (remove_request s options)) =
     network s @
     [Delete (getProp options ''route'')
             (default_param (getProp options ''config'') (JObj [(''withCredentials'', JBool True)]))]"
  by (simp add: remove_request_def Let_def split: outcome.splits)

section \<open>Properties of the specification\<close>

text \<open>
  C1, as stated, fails: the value a verb function returns is not one flat structure
  with the fields \<^verbatim>\<open>headers\<close>, \<^verbatim>\<open>status\<close>, \<^verbatim>\<open>message\<close>, \<^verbatim>\<open>body\<close>. A successful
  \<^verbatim>\<open>put\<close> returns an object whose own fields are \<^verbatim>\<open>headers\<close> and \<^verbatim>\<open>main\<close>.
\<close>

theorem envelope_not_flat:
  "snd (exports \<lparr>parse_query = (\<lambda>q. []), print_large = (\<lambda>n. [])\<rparr> PUT
          \<lparr>api = Some (\<lambda>req. Resolved \<lparr>headers = JObj [], status = 200, data = JStr ''ok''\<rparr>),
           stderr = [], network = []\<rparr>
          (JObj [(''route'', JStr ''/items/3''), (''data'', JObj [(''name'', JStr ''pen'')])]))
   = Fulfilled
       (JObj [(''headers'', JObj []),
              (''main'', JObj [(''status'', JNum 200), (''message'', JStr ''Success''),
                               (''body'', JStr ''ok'')])]) \<and>
   own_keys (JObj [(''headers'', JObj []),
                   (''main'', JObj [(''status'', JNum 200), (''message'', JStr ''Success''),
                                    (''body'', JStr ''ok'')])])
   \<noteq> [''headers'', ''status'', ''message'', ''body'']"
  by (simp add: put_def default_param_def)

text \<open>
  C1, amended. Every verb function called after initialisation with an options
  argument other than \<^verbatim>\<open>undefined\<close> and \<^verbatim>\<open>null\<close> (for \<^verbatim>\<open>get\<close>: with a route and data
  values that convert to strings) returns, on the success path and on every failure
  path of the request, a value of the shape
  \<^verbatim>\<open>{headers, main: {status, message, body}}\<close>: \<^verbatim>\<open>headers\<close> at the top, the numeric
  \<^verbatim>\<open>status\<close>, the \<^verbatim>\<open>message\<close> and the \<^verbatim>\<open>body\<close> nested under \<^verbatim>\<open>main\<close>.
\<close>

theorem verb_returns_nested_envelope:
  assumes "api s = Some client" and "\<not> nullish options"
    and "v = GET \<Longrightarrow>
           \<exists>url. newRoute pf (default_param (getProp options ''data'') JNull)
                   (getProp options ''route'') = Inr url"
  shows "\<exists>h st m b. snd (exports pf v s options) =
           Fulfilled (JObj [(''headers'', h),
                            (''main'', JObj [(''status'', JNum st), (''message'', m), (''body'', b)])])"
proof -
  have "\<exists>req. exports pf v s options =
     (s\<lparr>network := network s @ [req]\<rparr>,
      Fulfilled (case client req of
                   Resolved r \<Rightarrow>
                     JObj [(''headers'', headers r),
                           (''main'', JObj [(''status'', JNum (status r)),
                                            (''message'', JStr ''Success''),
                                            (''body'', data r)])]
                 | Failed err \<Rightarrow> formatError err))"
    by (rule verb_api [OF assms(2,1)]) (use assms(3) in blast)
  then obtain req where
    res: "snd (exports pf v s options) =
            Fulfilled (case client req of
                   Resolved r \<Rightarrow>
                     JObj [(''headers'', headers r),
                           (''main'', JObj [(''status'', JNum (status r)),
                                            (''message'', JStr ''Success''),
                                            (''body'', data r)])]
                 | Failed err \<Rightarrow> formatError err)"
    by auto
  show ?thesis
  proof (cases "client req")
    case (Resolved r)
    with res show ?thesis by simp
  next
    case (Failed err)
    with res formatError_shape [of err] show ?thesis by auto
  qed
qed

theorem verb_returns_nested_envelope_witness:
  "newRoute \<lparr>parse_query = (\<lambda>q. []), print_large = (\<lambda>n. [])\<rparr> JNull (JStr ''/items'')
     = Inr ''/items?'' \<and>
   (\<exists>h st m b.
     snd (exports \<lparr>parse_query = (\<lambda>q. []), print_large = (\<lambda>n. [])\<rparr> GET
            (createApiApp
               (\<lambda>baseURL config req. Failed \<lparr>response = None, message = JStr ''Network Error''\<rparr>)
               \<lparr>api = None, stderr = [], network = []\<rparr>
               (JStr ''https://api.example.com'') JUndefined)
            (JObj [(''route'', JStr ''/items'')]))
     = Fulfilled (JObj [(''headers'', h),
                        (''main'', JObj [(''status'', JNum st), (''message'', m), (''body'', b)])]))"
proof -
  let ?pf = "\<lparr>parse_query = (\<lambda>q. []), print_large = (\<lambda>n. [])\<rparr>"
  let ?f = "\<lambda>(baseURL :: jsval) (config :: jsval) (req :: request).
              Failed \<lparr>response = None, message = JStr ''Network Error''\<rparr>"
  let ?s = "createApiApp ?f \<lparr>api = None, stderr = [], network = []\<rparr>
              (JStr ''https://api.example.com'') JUndefined"
  let ?o = "JObj [(''route'', JStr ''/items'')]"
  have h1: "api ?s = Some (?f (JStr ''https://api.example.com'') (JObj []))"
    by (simp add: createApiApp_api default_param_def)
  have h2: "\<not> nullish ?o" by simp
  have r: "newRoute ?pf JNull (JStr ''/items'') = Inr ''/items?''"
    by (simp add: newRoute_null)
  have h3: "\<exists>url. newRoute ?pf (default_param (getProp ?o ''data'') JNull) (getProp ?o ''route'') = Inr url"
    by (simp add: default_param_def newRoute_null)
  from verb_returns_nested_envelope [OF h1 h2 h3, of GET] r show ?thesis by blast
qed




text \<open>
  C3. Every verb function, initialised and called with options (for \<^verbatim>\<open>get\<close>:
  convertible ones), issues one request; when that request failed with a response
  whose status is at least 500, the function returns the envelope with empty headers,
  that status, the message \<^verbatim>\<open>Something went wrong. Please try again later.\<close> and the
  body \<^verbatim>\<open>null\<close>, whatever payload the server sent. The status, message and body are
  the fields of the envelope's \<^verbatim>\<open>main\<close> object.
\<close>

theorem server_error_envelope:
  assumes "api s = Some client" and "\<not> nullish options"
    and "v = GET \<Longrightarrow>
           \<exists>url. newRoute pf (default_param (getProp options ''data'') JNull)
                   (getProp options ''route'') = Inr url"
  shows "\<exists>req. fst (exports pf v s options) = s\<lparr>network := network s @ [req]\<rparr> \<and>
           (\<forall>err r. client req = Failed err \<longrightarrow> response err = Some r \<longrightarrow> 500 \<le> status r \<longrightarrow>
              snd (exports pf v s options) =
                Fulfilled
                  (JObj [(''headers'', JObj []),
                         (''main'', JObj [(''status'', JNum (status r)),
                                          (''message'', JStr ''Something went wrong. Please try again later.''),
                                          (''body'', JNull)])]))"
proof -
  have "\<exists>req. fst (exports pf v s options) = s\<lparr>network := network s @ [req]\<rparr> \<and>
           snd (exports pf v s options) =
             Fulfilled (case client req of
                   Resolved r \<Rightarrow>
                     JObj [(''headers'', headers r),
                           (''main'', JObj [(''status'', JNum (status r)),
                                            (''message'', JStr ''Success''),
                                            (''body'', data r)])]
                 | Failed err \<Rightarrow> formatError err)"
    by (rule verb_sends [OF assms(1,2)]) (use assms(3) in blast)
  then obtain req where
    sent: "fst (exports pf v s options) = s\<lparr>network := network s @ [req]\<rparr>" and
    res: "snd (exports pf v s options) =
             Fulfilled (case client req of
                   Resolved r \<Rightarrow>
                     JObj [(''headers'', headers r),
                           (''main'', JObj [(''status'', JNum (status r)),
                                            (''message'', JStr ''Success''),
                                            (''body'', data r)])]
                 | Failed err \<Rightarrow> formatError err)"
    by blast
  show ?thesis
  proof (intro exI conjI allI impI)
    show "fst (exports pf v s options) = s\<lparr>network := network s @ [req]\<rparr>" by (rule sent)
  next
    fix err r
    assume "client req = Failed err" and "response err = Some r" and "500 \<le> status r"
    with res formatError_5xx [of err r]
    show "snd (exports pf v s options) =
                Fulfilled
                  (JObj [(''headers'', JObj []),
                         (''main'', JObj [(''status'', JNum (status r)),
                                          (''message'', JStr ''Something went wrong. Please try again later.''),
                                          (''body'', JNull)])])"
      by simp
  qed
qed

theorem server_error_envelope_witness:
  "(500 :: int) \<le> 503 \<and>
   exports \<lparr>parse_query = (\<lambda>q. []), print_large = (\<lambda>n. [])\<rparr> GET
     \<lparr>api = Some (\<lambda>req. Failed \<lparr>response = Some \<lparr>headers = JObj [(''server'', JStr ''nginx'')],
                                                   status = 503,
                                                   data = JObj [(''message'', JStr ''db down'')]\<rparr>,
                                 message = JStr ''Request failed with status code 503''\<rparr>),
      stderr = [], network = []\<rparr>
     (JObj [(''route'', JStr ''/items'')])
   = (\<lparr>api = Some (\<lambda>req. Failed \<lparr>response = Some \<lparr>headers = JObj [(''server'', JStr ''nginx'')],
                                                    status = 503,
                                                    data = JObj [(''message'', JStr ''db down'')]\<rparr>,
                                  message = JStr ''Request failed with status code 503''\<rparr>),
       stderr = [], network = [Get ''/items?'' (JObj [])]\<rparr>,
      Fulfilled
       (JObj [(''headers'', JObj []),
              (''main'', JObj [(''status'', JNum 503),
                               (''message'', JStr ''Something went wrong. Please try again later.''),
                               (''body'', JNull)])]))"
proof -
  let ?pf = "\<lparr>parse_query = (\<lambda>q. []), print_large = (\<lambda>n. [])\<rparr>"
  let ?r = "\<lparr>headers = JObj [(''server'', JStr ''nginx'')], status = 503,
             data = JObj [(''message'', JStr ''db down'')]\<rparr>"
  let ?err = "\<lparr>response = Some ?r, message = JStr ''Request failed with status code 503''\<rparr>"
  let ?c = "\<lambda>req :: request. Failed ?err"
  let ?s = "\<lparr>api = Some ?c, stderr = [], network = []\<rparr>"
  let ?o = "JObj [(''route'', JStr ''/items'')]"
  let ?call = "exports ?pf GET ?s ?o"
  have h1: "api ?s = Some ?c" by simp
  have h2: "\<not> nullish ?o" by simp
  have h3: "\<exists>url. newRoute ?pf (default_param (getProp ?o ''data'') JNull) (getProp ?o ''route'') = Inr url"
    by (simp add: default_param_def newRoute_null)
  from server_error_envelope [OF h1 h2 h3, of GET] obtain req where
    sent: "fst ?call = ?s\<lparr>network := network ?s @ [req]\<rparr>" and
    res: "\<forall>err r. ?c req = Failed err \<longrightarrow> response err = Some r \<longrightarrow> 500 \<le> status r \<longrightarrow>
            snd ?call =
              Fulfilled
                (JObj [(''headers'', JObj []),
                       (''main'', JObj [(''status'', JNum (status r)),
                                        (''message'', JStr ''Something went wrong. Please try again later.''),
                                        (''body'', JNull)])])"
    by blast
  have e: "?c req = Failed ?err" by simp
  have r: "response ?err = Some ?r" by simp
  have g: "500 \<le> status ?r" by simp
  from res e r g have out: "snd ?call =
      Fulfilled
        (JObj [(''headers'', JObj []),
               (''main'', JObj [(''status'', JNum (status ?r)),
                                (''message'', JStr ''Something went wrong. Please try again later.''),
                                (''body'', JNull)])])"
    by blast
  have st: "fst ?call = ?s\<lparr>network := [Get ''/items?'' (JObj [])]\<rparr>"
    by (simp add: get_def default_param_def newRoute_null)
  have "?call = (fst ?call, snd ?call)" by simp
  with st out show ?thesis by simp
qed

text \<open>
  C4, as stated, fails. A 404 whose payload is \<^verbatim>\<open>false\<close> returns the body \<^verbatim>\<open>{}\<close>,
  not the payload; a 404 whose payload is \<^verbatim>\<open>{message: ""}\<close> returns the transport
  error's message, not the message field that the server provided.
\<close>

theorem client_error_falsy_payload:
  "snd (exports \<lparr>parse_query = (\<lambda>q. []), print_large = (\<lambda>n. [])\<rparr> POST
          \<lparr>api = Some (\<lambda>req. Failed \<lparr>response = Some \<lparr>headers = JObj [], status = 404,
                                                        data = JBool False\<rparr>,
                                      message = JStr ''Request failed with status code 404''\<rparr>),
           stderr = [], network = []\<rparr>
          (JObj [(''route'', JStr ''/items'')]))
   = Fulfilled
       (JObj [(''headers'', JObj []),
              (''main'', JObj [(''status'', JNum 404),
                               (''message'', JStr ''Request failed with status code 404''),
                               (''body'', JObj [])])]) \<and>
   snd (exports \<lparr>parse_query = (\<lambda>q. []), print_large = (\<lambda>n. [])\<rparr> POST
          \<lparr>api = Some (\<lambda>req. Failed \<lparr>response = Some \<lparr>headers = JObj [], status = 404,
                                                        data = JBool False\<rparr>,
                                      message = JStr ''Request failed with status code 404''\<rparr>),
           stderr = [], network = []\<rparr>
          (JObj [(''route'', JStr ''/items'')]))
   \<noteq> Fulfilled
       (JObj [(''headers'', JObj []),
              (''main'', JObj [(''status'', JNum 404),
                               (''message'', JStr ''Request failed with status code 404''),
                               (''body'', JBool False)])]) \<and>
   snd (exports \<lparr>parse_query = (\<lambda>q. []), print_large = (\<lambda>n. [])\<rparr> POST
          \<lparr>api = Some (\<lambda>req. Failed \<lparr>response = Some \<lparr>headers = JObj [], status = 404,
                                                        data = JObj [(''message'', JStr '''')]\<rparr>,
                                      message = JStr ''Request failed with status code 404''\<rparr>),
           stderr = [], network = []\<rparr>
          (JObj [(''route'', JStr ''/items'')]))
   = Fulfilled
       (JObj [(''headers'', JObj []),
              (''main'', JObj [(''status'', JNum 404),
                               (''message'', JStr ''Request failed with status code 404''),
                               (''body'', JObj [(''message'', JStr '''')])])]) \<and>
   snd (exports \<lparr>parse_query = (\<lambda>q. []), print_large = (\<lambda>n. [])\<rparr> POST
          \<lparr>api = Some (\<lambda>req. Failed \<lparr>response = Some \<lparr>headers = JObj [], status = 404,
                                                        data = JObj [(''message'', JStr '''')]\<rparr>,
                                      message = JStr ''Request failed with status code 404''\<rparr>),
           stderr = [], network = []\<rparr>
          (JObj [(''route'', JStr ''/items'')]))
   \<noteq> Fulfilled
       (JObj [(''headers'', JObj []),
              (''main'', JObj [(''status'', JNum 404),
                               (''message'', JStr ''''),
                               (''body'', JObj [(''message'', JStr '''')])])])"
  by (simp add: post_def default_param_def formatError_def error_status_def error_data_def
      js_or_def optChain_def)

text \<open>
  C4, amended. Every verb function, initialised and called with options (for
  \<^verbatim>\<open>get\<close>: convertible ones), issues one request; when that request failed with a
  response whose status is in [400, 499], the function returns the envelope with empty
  headers and that status; its message is the \<^verbatim>\<open>message\<close> field of the server's
  payload if that field is truthy, else the transport error's message if truthy, else
  \<^verbatim>\<open>Unknown error\<close>; its body is the server's payload if truthy, else the empty
  object. The status, message and body are the fields of the envelope's \<^verbatim>\<open>main\<close>
  object.
\<close>

theorem client_error_envelope:
  assumes "api s = Some client" and "\<not> nullish options"
    and "v = GET \<Longrightarrow>
           \<exists>url. newRoute pf (default_param (getProp options ''data'') JNull)
                   (getProp options ''route'') = Inr url"
  shows "\<exists>req. fst (exports pf v s options) = s\<lparr>network := network s @ [req]\<rparr> \<and>
           (\<forall>err r. client req = Failed err \<longrightarrow> response err = Some r \<longrightarrow>
                    400 \<le> status r \<longrightarrow> status r \<le> 499 \<longrightarrow>
              snd (exports pf v s options) =
                Fulfilled
                  (JObj [(''headers'', JObj []),
                         (''main'', JObj [(''status'', JNum (status r)),
                                          (''message'',
                                             if truthy (optChain (data r) ''message'')
                                             then optChain (data r) ''message''
                                             else if truthy (message err) then message err
                                             else JStr ''Unknown error''),
                                          (''body'', if truthy (data r) then data r else JObj [])])]))"
proof -
  have "\<exists>req. fst (exports pf v s options) = s\<lparr>network := network s @ [req]\<rparr> \<and>
           snd (exports pf v s options) =
             Fulfilled (case client req of
                   Resolved r \<Rightarrow>
                     JObj [(''headers'', headers r),
                           (''main'', JObj [(''status'', JNum (status r)),
                                            (''message'', JStr ''Success''),
                                            (''body'', data r)])]
                 | Failed err \<Rightarrow> formatError err)"
    by (rule verb_sends [OF assms(1,2)]) (use assms(3) in blast)
  then obtain req where
    sent: "fst (exports pf v s options) = s\<lparr>network := network s @ [req]\<rparr>" and
    res: "snd (exports pf v s options) =
             Fulfilled (case client req of
                   Resolved r \<Rightarrow>
                     JObj [(''headers'', headers r),
                           (''main'', JObj [(''status'', JNum (status r)),
                                            (''message'', JStr ''Success''),
                                            (''body'', data r)])]
                 | Failed err \<Rightarrow> formatError err)"
    by blast
  show ?thesis
  proof (intro exI conjI allI impI)
    show "fst (exports pf v s options) = s\<lparr>network := network s @ [req]\<rparr>" by (rule sent)
  next
    fix err r
    assume f: "client req = Failed err" and r: "response err = Some r"
      and "400 \<le> status r" and "status r \<le> 499"
    then have "status r < 500" by simp
    from res f formatError_below_500 [OF r this]
    show "snd (exports pf v s options) =
                Fulfilled
                  (JObj [(''headers'', JObj []),
                         (''main'', JObj [(''status'', JNum (status r)),
                                          (''message'',
                                             if truthy (optChain (data r) ''message'')
                                             then optChain (data r) ''message''
                                             else if truthy (message err) then message err
                                             else JStr ''Unknown error''),
                                          (''body'', if truthy (data r) then data r else JObj [])])])"
      by simp
  qed
qed

theorem client_error_envelope_witness:
  "(400 :: int) \<le> 404 \<and> (404 :: int) \<le> 499 \<and>
   exports \<lparr>parse_query = (\<lambda>q. []), print_large = (\<lambda>n. [])\<rparr> POST
     \<lparr>api = Some (\<lambda>req. Failed \<lparr>response = Some \<lparr>headers = JObj [(''server'', JStr ''nginx'')],
                                                   status = 404,
                                                   data = JObj [(''message'', JStr ''No such item''),
                                                                (''code'', JNum 17)]\<rparr>,
                                 message = JStr ''Request failed with status code 404''\<rparr>),
      stderr = [], network = []\<rparr>
     (JObj [(''route'', JStr ''/items''), (''data'', JObj [(''name'', JStr ''pen'')])])
   = (\<lparr>api = Some (\<lambda>req. Failed \<lparr>response = Some \<lparr>headers = JObj [(''server'', JStr ''nginx'')],
                                                    status = 404,
                                                    data = JObj [(''message'', JStr ''No such item''),
                                                                 (''code'', JNum 17)]\<rparr>,
                                  message = JStr ''Request failed with status code 404''\<rparr>),
       stderr = [],
       network = [Post (JStr ''/items'') (JObj [(''name'', JStr ''pen'')])
                       (JObj [(''withCredentials'', JBool True)])]\<rparr>,
      Fulfilled
       (JObj [(''headers'', JObj []),
              (''main'', JObj [(''status'', JNum 404),
                               (''message'', JStr ''No such item''),
                               (''body'', JObj [(''message'', JStr ''No such item''),
                                                (''code'', JNum 17)])])]))"
proof -
  let ?pf = "\<lparr>parse_query = (\<lambda>q. []), print_large = (\<lambda>n. [])\<rparr>"
  let ?r = "\<lparr>headers = JObj [(''server'', JStr ''nginx'')], status = 404,
             data = JObj [(''message'', JStr ''No such item''), (''code'', JNum 17)]\<rparr>"
  let ?err = "\<lparr>response = Some ?r, message = JStr ''Request failed with status code 404''\<rparr>"
  let ?c = "\<lambda>req :: request. Failed ?err"
  let ?s = "\<lparr>api = Some ?c, stderr = [], network = []\<rparr>"
  let ?o = "JObj [(''route'', JStr ''/items''), (''data'', JObj [(''name'', JStr ''pen'')])]"
  let ?call = "exports ?pf POST ?s ?o"
  have h1: "api ?s = Some ?c" by simp
  have h2: "\<not> nullish ?o" by simp
  have h3: "POST = GET \<Longrightarrow>
      \<exists>url. newRoute ?pf (default_param (getProp ?o ''data'') JNull) (getProp ?o ''route'') = Inr url"
    by simp
  from client_error_envelope [OF h1 h2 h3] obtain req :: request where
    res: "\<forall>err r. ?c req = Failed err \<longrightarrow> response err = Some r \<longrightarrow>
                  400 \<le> status r \<longrightarrow> status r \<le> 499 \<longrightarrow>
            snd ?call =
              Fulfilled
                (JObj [(''headers'', JObj []),
                       (''main'', JObj [(''status'', JNum (status r)),
                                        (''message'',
                                           if truthy (optChain (data r) ''message'')
                                           then optChain (data r) ''message''
                                           else if truthy (message err) then message err
                                           else JStr ''Unknown error''),
                                        (''body'', if truthy (data r) then data r else JObj [])])])"
    by blast
  have e: "?c req = Failed ?err" by simp
  have r: "response ?err = Some ?r" by simp
  have g: "400 \<le> status ?r" by simp
  have l: "status ?r \<le> 499" by simp
  from res e r g l have out: "snd ?call =
      Fulfilled
        (JObj [(''headers'', JObj []),
               (''main'', JObj [(''status'', JNum (status ?r)),
                                (''message'',
                                   if truthy (optChain (data ?r) ''message'')
                                   then optChain (data ?r) ''message''
                                   else if truthy (message ?err) then message ?err
                                   else JStr ''Unknown error''),
                                (''body'', if truthy (data ?r) then data ?r else JObj [])])])"
    by blast
  have st: "fst ?call =
      ?s\<lparr>network := [Post (JStr ''/items'') (JObj [(''name'', JStr ''pen'')])
                            (JObj [(''withCredentials'', JBool True)])]\<rparr>"
    by (simp add: post_def default_param_def)
  have "?call = (fst ?call, snd ?call)" by simp
  with st out show ?thesis by (simp add: optChain_def)
qed

text \<open>
  C5. Every verb function, initialised and called with options (for \<^verbatim>\<open>get\<close>:
  convertible ones), issues one request; when that request failed and no response was
  received, the function returns the envelope with status 0, empty headers, the
  transport error's message if there is one (a truthy value), else
  \<^verbatim>\<open>Unknown error\<close>, and the empty object as body. The status, message and body are
  the fields of the envelope's \<^verbatim>\<open>main\<close> object.
\<close>

theorem no_response_envelope:
  assumes "api s = Some client" and "\<not> nullish options"
    and "v = GET \<Longrightarrow>
           \<exists>url. newRoute pf (default_param (getProp options ''data'') JNull)
                   (getProp options ''route'') = Inr url"
  shows "\<exists>req. fst (exports pf v s options) = s\<lparr>network := network s @ [req]\<rparr> \<and>
           (\<forall>err. client req = Failed err \<longrightarrow> response err = None \<longrightarrow>
              snd (exports pf v s options) =
                Fulfilled
                  (JObj [(''headers'', JObj []),
                         (''main'', JObj [(''status'', JNum 0),
                                          (''message'',
                                             if truthy (message err) then message err
                                             else JStr ''Unknown error''),
                                          (''body'', JObj [])])]))"
proof -
  have "\<exists>req. fst (exports pf v s options) = s\<lparr>network := network s @ [req]\<rparr> \<and>
           snd (exports pf v s options) =
             Fulfilled (case client req of
                   Resolved r \<Rightarrow>
                     JObj [(''headers'', headers r),
                           (''main'', JObj [(''status'', JNum (status r)),
                                            (''message'', JStr ''Success''),
                                            (''body'', data r)])]
                 | Failed err \<Rightarrow> formatError err)"
    by (rule verb_sends [OF assms(1,2)]) (use assms(3) in blast)
  then obtain req where
    sent: "fst (exports pf v s options) = s\<lparr>network := network s @ [req]\<rparr>" and
    res: "snd (exports pf v s options) =
             Fulfilled (case client req of
                   Resolved r \<Rightarrow>
                     JObj [(''headers'', headers r),
                           (''main'', JObj [(''status'', JNum (status r)),
                                            (''message'', JStr ''Success''),
                                            (''body'', data r)])]
                 | Failed err \<Rightarrow> formatError err)"
    by blast
  show ?thesis
  proof (intro exI conjI allI impI)
    show "fst (exports pf v s options) = s\<lparr>network := network s @ [req]\<rparr>" by (rule sent)
  next
    fix err
    assume f: "client req = Failed err" and r: "response err = None"
    from res f formatError_no_response [OF r]
    show "snd (exports pf v s options) =
                Fulfilled
                  (JObj [(''headers'', JObj []),
                         (''main'', JObj [(''status'', JNum 0),
                                          (''message'',
                                             if truthy (message err) then message err
                                             else JStr ''Unknown error''),
                                          (''body'', JObj [])])])"
      by simp
  qed
qed

theorem no_response_envelope_witness:
  "exports \<lparr>parse_query = (\<lambda>q. []), print_large = (\<lambda>n. [])\<rparr> DELETE
     \<lparr>api = Some (\<lambda>req. Failed \<lparr>response = None,
                                 message = JStr ''getaddrinfo ENOTFOUND api.example.com''\<rparr>),
      stderr = [], network = []\<rparr>
     (JObj [(''route'', JStr ''/items/3'')])
   = (\<lparr>api = Some (\<lambda>req. Failed \<lparr>response = None,
                                  message = JStr ''getaddrinfo ENOTFOUND api.example.com''\<rparr>),
       stderr = [],
       network = [Delete (JStr ''/items/3'') (JObj [(''withCredentials'', JBool True)])]\<rparr>,
      Fulfilled
       (JObj [(''headers'', JObj []),
              (''main'', JObj [(''status'', JNum 0),
                               (''message'', JStr ''getaddrinfo ENOTFOUND api.example.com''),
                               (''body'', JObj [])])]))"
proof -
  let ?pf = "\<lparr>parse_query = (\<lambda>q. []), print_large = (\<lambda>n. [])\<rparr>"
  let ?err = "\<lparr>response = None, message = JStr ''getaddrinfo ENOTFOUND api.example.com''\<rparr>"
  let ?c = "\<lambda>req :: request. Failed ?err"
  let ?s = "\<lparr>api = Some ?c, stderr = [], network = []\<rparr>"
  let ?o = "JObj [(''route'', JStr ''/items/3'')]"
  let ?call = "exports ?pf DELETE ?s ?o"
  have h1: "api ?s = Some ?c" by simp
  have h2: "\<not> nullish ?o" by simp
  have h3: "DELETE = GET \<Longrightarrow>
      \<exists>url. newRoute ?pf (default_param (getProp ?o ''data'') JNull) (getProp ?o ''route'') = Inr url"
    by simp
  from no_response_envelope [OF h1 h2 h3] obtain req :: request where
    res: "\<forall>err. ?c req = Failed err \<longrightarrow> response err = None \<longrightarrow>
            snd ?call =
              Fulfilled
                (JObj [(''headers'', JObj []),
                       (''main'', JObj [(''status'', JNum 0),
                                        (''message'',
                                           if truthy (message err) then message err
                                           else JStr ''Unknown error''),
                                        (''body'', JObj [])])])"
    by blast
  have e: "?c req = Failed ?err" by simp
  have r: "response ?err = None" by simp
  from res e r have out: "snd ?call =
      Fulfilled
        (JObj [(''headers'', JObj []),
               (''main'', JObj [(''status'', JNum 0),
                                (''message'',
                                   if truthy (message ?err) then message ?err
                                   else JStr ''Unknown error''),
                                (''body'', JObj [])])])"
    by blast
  have st: "fst ?call =
      ?s\<lparr>network := [Delete (JStr ''/items/3'') (JObj [(''withCredentials'', JBool True)])]\<rparr>"
    by (simp add: remove_request_def default_param_def)
  have "?call = (fst ?call, snd ?call)" by simp
  with st out show ?thesis by simp
qed

text \<open>
  C6. Every verb function, initialised and called with options (for \<^verbatim>\<open>get\<close>:
  convertible ones), issues one request; when that request succeeded, the returned
  envelope has the message \<^verbatim>\<open>Success\<close>, the payload of the response as body, the
  status of the response as status and the headers of the response as headers. The
  status, message and body are the fields of the envelope's \<^verbatim>\<open>main\<close> object.
\<close>

theorem success_envelope:
  assumes "api s = Some client" and "\<not> nullish options"
    and "v = GET \<Longrightarrow>
           \<exists>url. newRoute pf (default_param (getProp options ''data'') JNull)
                   (getProp options ''route'') = Inr url"
  shows "\<exists>req. fst (exports pf v s options) = s\<lparr>network := network s @ [req]\<rparr> \<and>
           (\<forall>r. client req = Resolved r \<longrightarrow>
              snd (exports pf v s options) =
                Fulfilled
                  (JObj [(''headers'', headers r),
                         (''main'', JObj [(''status'', JNum (status r)),
                                          (''message'', JStr ''Success''),
                                          (''body'', data r)])]))"
proof -
  have "\<exists>req. fst (exports pf v s options) = s\<lparr>network := network s @ [req]\<rparr> \<and>
           snd (exports pf v s options) =
             Fulfilled (case client req of
                   Resolved r \<Rightarrow>
                     JObj [(''headers'', headers r),
                           (''main'', JObj [(''status'', JNum (status r)),
                                            (''message'', JStr ''Success''),
                                            (''body'', data r)])]
                 | Failed err \<Rightarrow> formatError err)"
    by (rule verb_sends [OF assms(1,2)]) (use assms(3) in blast)
  then obtain req where
    sent: "fst (exports pf v s options) = s\<lparr>network := network s @ [req]\<rparr>" and
    res: "snd (exports pf v s options) =
             Fulfilled (case client req of
                   Resolved r \<Rightarrow>
                     JObj [(''headers'', headers r),
                           (''main'', JObj [(''status'', JNum (status r)),
                                            (''message'', JStr ''Success''),
                                            (''body'', data r)])]
                 | Failed err \<Rightarrow> formatError err)"
    by blast
  show ?thesis
  proof (intro exI conjI allI impI)
    show "fst (exports pf v s options) = s\<lparr>network := network s @ [req]\<rparr>" by (rule sent)
  next
    fix r
    assume "client req = Resolved r"
    with res
    show "snd (exports pf v s options) =
                Fulfilled
                  (JObj [(''headers'', headers r),
                         (''main'', JObj [(''status'', JNum (status r)),
                                          (''message'', JStr ''Success''),
                                          (''body'', data r)])])"
      by simp
  qed
qed

theorem success_envelope_witness:
  "exports \<lparr>parse_query = (\<lambda>q. []), print_large = (\<lambda>n. [])\<rparr> PATCH
     \<lparr>api = Some (\<lambda>req. Resolved \<lparr>headers = JObj [(''content-type'', JStr ''application/json'')],
                                   status = 200,
                                   data = JObj [(''id'', JNum 3), (''name'', JStr ''pen'')]\<rparr>),
      stderr = [], network = []\<rparr>
     (JObj [(''route'', JStr ''/items/3''), (''data'', JObj [(''name'', JStr ''pen'')])])
   = (\<lparr>api = Some (\<lambda>req. Resolved \<lparr>headers = JObj [(''content-type'', JStr ''application/json'')],
                                    status = 200,
                                    data = JObj [(''id'', JNum 3), (''name'', JStr ''pen'')]\<rparr>),
       stderr = [],
       network = [Patch (JStr ''/items/3'') (JObj [(''name'', JStr ''pen'')])
                        (JObj [(''withCredentials'', JBool True)])]\<rparr>,
      Fulfilled
       (JObj [(''headers'', JObj [(''content-type'', JStr ''application/json'')]),
              (''main'', JObj [(''status'', JNum 200),
                               (''message'', JStr ''Success''),
                               (''body'', JObj [(''id'', JNum 3), (''name'', JStr ''pen'')])])]))"
proof -
  let ?pf = "\<lparr>parse_query = (\<lambda>q. []), print_large = (\<lambda>n. [])\<rparr>"
  let ?r = "\<lparr>headers = JObj [(''content-type'', JStr ''application/json'')], status = 200,
             data = JObj [(''id'', JNum 3), (''name'', JStr ''pen'')]\<rparr>"
  let ?c = "\<lambda>req :: request. Resolved ?r"
  let ?s = "\<lparr>api = Some ?c, stderr = [], network = []\<rparr>"
  let ?o = "JObj [(''route'', JStr ''/items/3''), (''data'', JObj [(''name'', JStr ''pen'')])]"
  let ?call = "exports ?pf PATCH ?s ?o"
  have h1: "api ?s = Some ?c" by simp
  have h2: "\<not> nullish ?o" by simp
  have h3: "PATCH = GET \<Longrightarrow>
      \<exists>url. newRoute ?pf (default_param (getProp ?o ''data'') JNull) (getProp ?o ''route'') = Inr url"
    by simp
  from success_envelope [OF h1 h2 h3] obtain req :: request where
    res: "\<forall>r. ?c req = Resolved r \<longrightarrow>
            snd ?call =
              Fulfilled
                (JObj [(''headers'', headers r),
                       (''main'', JObj [(''status'', JNum (status r)),
                                        (''message'', JStr ''Success''),
                                        (''body'', data r)])])"
    by blast
  have e: "?c req = Resolved ?r" by simp
  from res e have out: "snd ?call =
      Fulfilled
        (JObj [(''headers'', headers ?r),
               (''main'', JObj [(''status'', JNum (status ?r)),
                                (''message'', JStr ''Success''),
                                (''body'', data ?r)])])"
    by blast
  have st: "fst ?call =
      ?s\<lparr>network := [Patch (JStr ''/items/3'') (JObj [(''name'', JStr ''pen'')])
                             (JObj [(''withCredentials'', JBool True)])]\<rparr>"
    by (simp add: patch_def default_param_def)
  have "?call = (fst ?call, snd ?call)" by simp
  with st out show ?thesis by simp
qed



text \<open>
  C8, as stated, fails: called before initialisation with no options argument, \<^verbatim>\<open>get\<close>
  rejects with a \<^verbatim>\<open>TypeError\<close> and writes no diagnostic.
\<close>

theorem get_without_options_before_init_rejects:
  "exports \<lparr>parse_query = (\<lambda>q. []), print_large = (\<lambda>n. [])\<rparr> GET \<lparr>api = None, stderr = [], network = []\<rparr> JUndefined
   = (\<lparr>api = None, stderr = [], network = []\<rparr>, Rejected TypeError)"
  by (simp add: get_def)

text \<open>
  C8, amended. Calling any verb function before initialisation with an options
  argument other than \<^verbatim>\<open>undefined\<close> and \<^verbatim>\<open>null\<close> throws nothing and returns no
  envelope (the result is \<^verbatim>\<open>undefined\<close>); one diagnostic line is written to the error
  stream and no request is issued.
\<close>

theorem uninitialized_call:
  assumes "api s = None" and "\<not> nullish options"
  shows "exports pf v s options =
           (s\<lparr>stderr := stderr s @ [no_api_message]\<rparr>, Fulfilled JUndefined) \<and>
         network (fst (exports pf v s options)) = network s"
  using verb_no_api [OF assms(2,1), of pf v] by simp

theorem uninitialized_call_witness:
  "exports \<lparr>parse_query = (\<lambda>q. []), print_large = (\<lambda>n. [])\<rparr> DELETE \<lparr>api = None, stderr = [], network = []\<rparr> (JObj [(''route'', JStr ''/items/3'')])
   = (\<lparr>api = None,
       stderr = [''No api app created!, try creating one using createApiApp() in the root file''],
       network = []\<rparr>,
      Fulfilled JUndefined)"
proof -
  let ?s = "\<lparr>api = None, stderr = [], network = []\<rparr> :: state"
  have h1: "api ?s = None" by simp
  have h2: "\<not> nullish (JObj [(''route'', JStr ''/items/3'')])" by simp
  from uninitialized_call [OF h1 h2, of "\<lparr>parse_query = (\<lambda>q. []), print_large = (\<lambda>n. [])\<rparr>" DELETE] show ?thesis
    by (simp add: no_api_message_def)
qed

text \<open>
  C9. When the options carry no \<^verbatim>\<open>config\<close>, \<^verbatim>\<open>post\<close> and \<^verbatim>\<open>patch\<close> issue their request
  with the config \<^verbatim>\<open>{withCredentials: true}\<close>, \<^verbatim>\<open>put\<close> with the config \<^verbatim>\<open>{}\<close>, and
  \<^verbatim>\<open>delete\<close> with the config \<^verbatim>\<open>{withCredentials: true}\<close>.
\<close>

theorem default_config:
  assumes "api s = Some client" and "\<not> nullish options"
    and "getProp options ''config'' = JUndefined"
  shows "network (fst (post s options)) =
           network s @ [Post (getProp options ''route'') (getProp options ''data'')
                             (JObj [(''withCredentials'', JBool True)])] \<and>
         network (fst (patch s options)) =
           network s @ [Patch (getProp options ''route'') (getProp options ''data'')
                              (JObj [(''withCredentials'', JBool True)])] \<and>
         network (fst (put s options)) =
           network s @ [Put (getProp options ''route'') (getProp options ''data'') (JObj [])] \<and>
         network (fst (remove_request s options)) =
           network s @ [Delete (getProp options ''route'')
                               (JObj [(''withCredentials'', JBool True)])]"
  using post_request [OF assms(2,1)] patch_request [OF assms(2,1)] put_request [OF assms(2,1)]
    remove_request_request [OF assms(2,1)] assms(3)
  by (simp add: default_param_def)

theorem default_config_witness:
  "getProp (JObj [(''route'', JStr ''/items''), (''data'', JObj [(''name'', JStr ''pen'')])]) ''config''
     = JUndefined \<and>
   network (fst (post
                   \<lparr>api = Some (\<lambda>req. Resolved \<lparr>headers = JObj [], status = 201, data = JNull\<rparr>),
                    stderr = [], network = []\<rparr>
                   (JObj [(''route'', JStr ''/items''), (''data'', JObj [(''name'', JStr ''pen'')])])))
     = [Post (JStr ''/items'') (JObj [(''name'', JStr ''pen'')]) (JObj [(''withCredentials'', JBool True)])] \<and>
   network (fst (put
                   \<lparr>api = Some (\<lambda>req. Resolved \<lparr>headers = JObj [], status = 201, data = JNull\<rparr>),
                    stderr = [], network = []\<rparr>
                   (JObj [(''route'', JStr ''/items''), (''data'', JObj [(''name'', JStr ''pen'')])])))
     = [Put (JStr ''/items'') (JObj [(''name'', JStr ''pen'')]) (JObj [])]"
proof -
  let ?c = "\<lambda>req :: request. Resolved \<lparr>headers = JObj [], status = 201, data = JNull\<rparr>"
  let ?s = "\<lparr>api = Some ?c, stderr = [], network = []\<rparr>"
  let ?o = "JObj [(''route'', JStr ''/items''), (''data'', JObj [(''name'', JStr ''pen'')])]"
  have h1: "api ?s = Some ?c" by simp
  have h2: "\<not> nullish ?o" by simp
  have h3: "getProp ?o ''config'' = JUndefined" by simp
  from default_config [OF h1 h2 h3] h3 show ?thesis by simp
qed

text \<open>
  C10. Every verb function invoked with no argument at all rejects with a
  \<^verbatim>\<open>TypeError\<close>, raised while the missing options object is destructured; this holds
  in every state, also right after \<^verbatim>\<open>createApiApp\<close>. Nothing is logged and no request
  is issued.
\<close>

theorem missing_options_rejects:
  "exports pf v s JUndefined = (s, Rejected TypeError) \<and>
   exports pf v (createApiApp axios_create s baseURL config) JUndefined =
     (createApiApp axios_create s baseURL config, Rejected TypeError)"
  by (simp add: verb_nullish)

end
